theory Spec2Isabelle
  imports Complex_Main "HOL-Library.Sublist"
begin

section \<open>Candidate evaluation and promotion engine\<close>

text \<open>
  A shallow embedding of the evaluation core of the repository:
  \<^verbatim>\<open>validation/test_runner.py\<close>, \<^verbatim>\<open>validation/param_validation.py\<close>,
  \<^verbatim>\<open>validation/agent_validation.py\<close>, \<^verbatim>\<open>RL/agent_manager.py\<close> and
  \<^verbatim>\<open>config/config_manager.py\<close>.

  Conventions of the embedding.
  \<^item> Python floats are modelled by \<^typ>\<open>real\<close>: the scores compared here are decimals with
    three fractional digits, printed by the harness, and the comparisons are the
    mathematical ones. NaN and rounding are outside the model.
  \<^item> Python strings are \<^typ>\<open>string\<close>.
  \<^item> What the operating system and the Python interpreter do (the outcome of a child
    process, the loading of a module) is a parameter of the functions that depend on it.
    Failures of file-system calls themselves (a full disk, a missing directory) are not
    modelled: a file operation does what its documentation says.
  \<^item> An exception caught by a \<^verbatim>\<open>try\<close> block is a constructor of the value the block
    is run on, so that every handler of the source is a branch of the model.
\<close>

subsection \<open>Metrics\<close>

text \<open>
  The dictionary \<^verbatim>\<open>{'avg_return': ..., 'success_rate': ..., 'test_name': ...}\<close> built by
  \<^verbatim>\<open>_execute_test_script\<close>.
\<close>

record metrics =
  avg_return :: real
  success_rate :: real
  test_name :: string

subsection \<open>String helpers of the Python runtime\<close>









subsection \<open>The result protocol: \<^verbatim>\<open>_parse_test_output\<close>\<close>




subsection \<open>The isolated executor: \<^verbatim>\<open>_execute_test_script\<close>\<close>


definition failure_metrics :: "string \<Rightarrow> metrics" where
  "failure_metrics name = \<lparr>avg_return = - 999, success_rate = 0, test_name = name\<rparr>"




subsection \<open>Candidate selection\<close>

text \<open>
  The body of a \<^verbatim>\<open>try\<close> block of a selection loop either raises (and the handler
  continues with the next candidate) or yields the metrics of the candidate.
\<close>

datatype 'a attempt = Raised | Returned 'a

text \<open>
  The variables \<^verbatim>\<open>best_metrics\<close> and \<^verbatim>\<open>best_index\<close> of both loops, and the indices
  whose test was started, in the order of the calls.
\<close>

record round =
  best_metrics :: metrics
  best_index :: int
  tested :: "nat list"

text \<open>
  The state both loops start from: \<^verbatim>\<open>best_metrics = original_metrics\<close> and
  \<^verbatim>\<open>best_index = -1\<close>.
\<close>

definition baseline_round :: "metrics \<Rightarrow> round" where
  "baseline_round original_metrics =
     \<lparr>best_metrics = original_metrics, best_index = - 1, tested = []\<rparr>"

subsubsection \<open>Agent-logic track: \<^verbatim>\<open>AgentManager.test_multiple_agents\<close>\<close>

definition digit_char :: "nat \<Rightarrow> char" where
  "digit_char d = ''0123456789'' ! (d mod 10)"

function show_nat :: "nat \<Rightarrow> string" where
  "show_nat n = (if n < 10 then [digit_char n] else show_nat (n div 10) @ [digit_char (n mod 10)])"
  by pat_completeness auto
termination
  by (relation "measure id") auto

definition candidate_file :: "nat \<Rightarrow> string" where
  "candidate_file i = ''candidate_'' @ show_nat i @ ''.py''"

text \<open>The names matched by \<^verbatim>\<open>glob("candidate_*.py")\<close> in one directory.\<close>

definition glob_candidate :: "string \<Rightarrow> bool" where
  "glob_candidate f \<longleftrightarrow> prefix ''candidate_'' f \<and> suffix ''.py'' f \<and> 13 \<le> length f"

definition cleanup_temp_agents :: "string set \<Rightarrow> string set" where
  "cleanup_temp_agents dir = {f \<in> dir. \<not> glob_candidate f} - {''__pycache__''}"

text \<open>
  \<open>tst i code dir\<close> is \<^verbatim>\<open>test_agent_performance\<close> on the candidate file of index \<open>i\<close>
  holding \<open>code\<close>, with \<open>dir\<close> the entries of the scratch directory: it raises or returns
  metrics, and leaves the directory with the entries of the second component (the child
  process may create a byte-code cache there).
\<close>

type_synonym agent_tester = "nat \<Rightarrow> string \<Rightarrow> string set \<Rightarrow> metrics attempt \<times> string set"

fun agent_loop ::
  "agent_tester \<Rightarrow> nat \<Rightarrow> string list \<Rightarrow> round \<times> string set \<Rightarrow> round \<times> string set" where
  "agent_loop tst i [] st = st"
| "agent_loop tst i (agent_code # rest) (r, dir) =
     (case tst i agent_code (insert (candidate_file i) dir) of
        (Returned m, dir') \<Rightarrow>
          (if avg_return m > avg_return (best_metrics r) * (1 + 0.1)
           then agent_loop tst (Suc i) rest
                  (r\<lparr>best_metrics := m, best_index := int i, tested := tested r @ [i]\<rparr>, dir')
           else agent_loop tst (Suc i) rest (r\<lparr>tested := tested r @ [i]\<rparr>, dir'))
      | (Raised, dir') \<Rightarrow>
          agent_loop tst (Suc i) rest (r\<lparr>tested := tested r @ [i]\<rparr>, dir'))"

text \<open>
  \<open>original_metrics\<close> is what the test of the live agent returned. The result is the
  returned pair, as the fields of the round, and the scratch directory after
  \<^verbatim>\<open>_cleanup_temp_agents\<close>.
\<close>

definition test_multiple_agents ::
  "agent_tester \<Rightarrow> metrics \<Rightarrow> string list \<Rightarrow> string set \<Rightarrow> round \<times> string set" where
  "test_multiple_agents tst original_metrics agent_codes dir =
     (case agent_loop tst 0 agent_codes (baseline_round original_metrics, dir) of
        (r, dir') \<Rightarrow> (r, cleanup_temp_agents dir'))"

subsubsection \<open>Configuration track: \<^verbatim>\<open>ConfigManager.test_multiple_configs\<close>\<close>

text \<open>
  \<open>tst i variant\<close> is the \<^verbatim>\<open>try\<close> body up to the metrics: writing the variant file and
  \<^verbatim>\<open>test_config_performance\<close>. The variant files in \<^verbatim>\<open>config/temp_configs\<close> play no part
  in the result and are left out.
\<close>

fun config_loop ::
  "(nat \<Rightarrow> 'c \<Rightarrow> metrics attempt) \<Rightarrow> nat \<Rightarrow> 'c list \<Rightarrow> round \<Rightarrow> round" where
  "config_loop tst i [] r = r"
| "config_loop tst i (config_variant # rest) r =
     (case tst i config_variant of
        Returned m \<Rightarrow>
          (if avg_return m \<le> - 999
           then config_loop tst (Suc i) rest (r\<lparr>tested := tested r @ [i]\<rparr>)
           else if avg_return m > avg_return (best_metrics r) + 0.05
           then config_loop tst (Suc i) rest
                  (r\<lparr>best_metrics := m, best_index := int i, tested := tested r @ [i]\<rparr>)
           else config_loop tst (Suc i) rest (r\<lparr>tested := tested r @ [i]\<rparr>))
      | Raised \<Rightarrow> config_loop tst (Suc i) rest (r\<lparr>tested := tested r @ [i]\<rparr>))"

definition test_multiple_configs ::
  "(nat \<Rightarrow> 'c \<Rightarrow> metrics attempt) \<Rightarrow> metrics \<Rightarrow> 'c list \<Rightarrow> round" where
  "test_multiple_configs tst original_metrics config_variants =
     (if avg_return original_metrics \<le> - 999
      then baseline_round original_metrics
      else config_loop tst 0 config_variants (baseline_round original_metrics))"

subsection \<open>Parameter validation: \<^verbatim>\<open>validation/param_validation.py\<close>\<close>











subsection \<open>Variant generation: \<^verbatim>\<open>ConfigManager.generate_config_variants\<close>\<close>











subsection \<open>Promotion gate: \<^verbatim>\<open>validate_agent_code\<close> and \<^verbatim>\<open>test_demo_run\<close>\<close>





subsection \<open>Version store and \<^verbatim>\<open>AgentManager.save_best_agent\<close>\<close>












section \<open>Properties\<close>

subsection \<open>The selection loops\<close>

text \<open>
  Running a loop over a concatenation is running it over the second list from the state
  the first list leaves, with the index advanced.
\<close>

lemma agent_loop_append:
  "agent_loop tst i (xs @ ys) st = agent_loop tst (i + length xs) ys (agent_loop tst i xs st)"
proof (induction xs arbitrary: i st)
  case Nil
  then show ?case by simp
next
  case (Cons x xs)
  obtain r dir where st: "st = (r, dir)" by (cases st)
  obtain a dir' where t: "tst i x (insert (candidate_file i) dir) = (a, dir')"
    by (cases "tst i x (insert (candidate_file i) dir)")
  show ?case
  proof (cases a)
    case Raised
    then show ?thesis using Cons.IH [of "Suc i"] by (simp add: st t)
  next
    case (Returned m)
    then show ?thesis using Cons.IH [of "Suc i"] by (simp add: st t)
  qed
qed

lemma config_loop_append:
  "config_loop tst i (xs @ ys) r = config_loop tst (i + length xs) ys (config_loop tst i xs r)"
proof (induction xs arbitrary: i r)
  case Nil
  then show ?case by simp
next
  case (Cons x xs)
  show ?case
  proof (cases "tst i x")
    case Raised
    then show ?thesis using Cons.IH [of "Suc i"] by simp
  next
    case (Returned m)
    then show ?thesis using Cons.IH [of "Suc i"] by simp
  qed
qed

lemma upt_step: "tested_r @ [i..<i + length (c # cs)] = (tested_r @ [i]) @ [Suc i..<Suc i + length cs]"
  using upt_conv_Cons [of i "i + length (c # cs)"] by (simp del: upt_Suc)

lemma agent_loop_tested:
  "tested (fst (agent_loop tst i cs (r, dir))) = tested r @ [i..<i + length cs]"
proof (induction cs arbitrary: i r dir)
  case Nil
  then show ?case by simp
next
  case (Cons c cs)
  obtain a dir' where t: "tst i c (insert (candidate_file i) dir) = (a, dir')"
    by (cases "tst i c (insert (candidate_file i) dir)")
  have "tested (fst (agent_loop tst i (c # cs) (r, dir))) =
        (tested r @ [i]) @ [Suc i..<Suc i + length cs]"
  proof (cases a)
    case Raised
    then show ?thesis by (simp add: t Cons.IH)
  next
    case (Returned m)
    then show ?thesis by (simp add: t Cons.IH)
  qed
  then show ?case by (simp only: upt_step)
qed

lemma config_loop_tested:
  "tested (config_loop tst i vs r) = tested r @ [i..<i + length vs]"
proof (induction vs arbitrary: i r)
  case Nil
  then show ?case by simp
next
  case (Cons v vs)
  have "tested (config_loop tst i (v # vs) r) = (tested r @ [i]) @ [Suc i..<Suc i + length vs]"
  proof (cases "tst i v")
    case Raised
    then show ?thesis by (simp add: Cons.IH)
  next
    case (Returned m)
    then show ?thesis by (simp add: Cons.IH)
  qed
  then show ?case by (simp only: upt_step)
qed


subsection \<open>Promotion rules\<close>






subsection \<open>A failing baseline\<close>

lemma config_track_failing_baseline:
  "avg_return orig \<le> - 999 \<Longrightarrow>
   test_multiple_configs tst orig vs = baseline_round orig"
  by (simp add: test_multiple_configs_def)

lemma test_multiple_agents_round:
  "fst (test_multiple_agents tst orig cs dir) =
   fst (agent_loop tst 0 cs (baseline_round orig, dir))"
  by (simp add: test_multiple_agents_def split: prod.splits)

text \<open>
  Claim C4, on the agent-logic track. The baseline scores the failure value \<open>-999\<close> and
  the only candidate fails as well, so that its metrics are the failure value too. The
  threshold is \<open>-999 * 1.1 = -1098.9\<close>, which \<open>-999\<close> exceeds: the failed candidate is
  returned as the best, at index \<open>0\<close>, although it is not better than the baseline. The
  configuration track, by contrast, returns the baseline at once
  (\<open>config_track_failing_baseline\<close>) and skips a variant that scores \<open>-999\<close>.
\<close>

theorem agent_track_failed_candidate_beats_failed_baseline:
  "best_index (fst (test_multiple_agents
      (\<lambda>i code dir. (Returned (failure_metrics ''Candidate 1''), dir))
      (failure_metrics ''Original'') [''class Agent: pass''] {})) = 0 \<and>
   best_metrics (fst (test_multiple_agents
      (\<lambda>i code dir. (Returned (failure_metrics ''Candidate 1''), dir))
      (failure_metrics ''Original'') [''class Agent: pass''] {})) = failure_metrics ''Candidate 1''"
  by (simp add: test_multiple_agents_def baseline_round_def failure_metrics_def)

subsection \<open>Failures of single candidates\<close>

text \<open>
  Claim C5. Every candidate is tested, in the order of the list, whatever the outcomes
  of the others: the indices tested are \<open>0, \<dots>, n - 1\<close>. A candidate whose test raises
  (and, on the configuration track, one that scores at most \<open>-999\<close>) leaves the running
  best as it was, and the loop goes on with the candidates after it from that state. On
  the configuration track this is the loop that runs once the baseline has passed the
  guard.
\<close>

theorem non_blocking_failure:
  "tested (fst (test_multiple_agents tst orig cs dir)) = [0..<length cs] \<and>
   (agent_loop tst 0 xs (baseline_round orig, dir) = (r, d) \<and>
    tst (length xs) c (insert (candidate_file (length xs)) d) = (Raised, d') \<longrightarrow>
      agent_loop tst 0 (xs @ c # ys) (baseline_round orig, dir) =
      agent_loop tst (Suc (length xs)) ys (r\<lparr>tested := tested r @ [length xs]\<rparr>, d')) \<and>
   (\<not> avg_return corig \<le> - 999 \<longrightarrow>
      tested (test_multiple_configs ctst corig vs) = [0..<length vs]) \<and>
   (\<not> avg_return corig \<le> - 999 \<and>
    (ctst (length us) v = Raised \<or>
     (\<exists>m. ctst (length us) v = Returned m \<and> avg_return m \<le> - 999)) \<longrightarrow>
      test_multiple_configs ctst corig (us @ v # ws) =
      config_loop ctst (Suc (length us)) ws
        ((test_multiple_configs ctst corig us)
           \<lparr>tested := tested (test_multiple_configs ctst corig us) @ [length us]\<rparr>))"
proof (intro conjI impI)
  show "tested (fst (test_multiple_agents tst orig cs dir)) = [0..<length cs]"
    using agent_loop_tested [of tst 0 cs "baseline_round orig" dir]
    by (simp add: test_multiple_agents_round baseline_round_def)
next
  assume h: "agent_loop tst 0 xs (baseline_round orig, dir) = (r, d) \<and>
    tst (length xs) c (insert (candidate_file (length xs)) d) = (Raised, d')"
  show "agent_loop tst 0 (xs @ c # ys) (baseline_round orig, dir) =
      agent_loop tst (Suc (length xs)) ys (r\<lparr>tested := tested r @ [length xs]\<rparr>, d')"
    using h by (simp add: agent_loop_append)
next
  assume "\<not> avg_return corig \<le> - 999"
  then show "tested (test_multiple_configs ctst corig vs) = [0..<length vs]"
    using config_loop_tested [of ctst 0 vs "baseline_round corig"]
    by (simp add: test_multiple_configs_def baseline_round_def)
next
  assume h: "\<not> avg_return corig \<le> - 999 \<and>
    (ctst (length us) v = Raised \<or>
     (\<exists>m. ctst (length us) v = Returned m \<and> avg_return m \<le> - 999))"
  have "test_multiple_configs ctst corig (us @ v # ws) =
        config_loop ctst (length us) (v # ws) (test_multiple_configs ctst corig us)"
    using h by (simp add: test_multiple_configs_def config_loop_append)
  also have "\<dots> = config_loop ctst (Suc (length us)) ws
        ((test_multiple_configs ctst corig us)
           \<lparr>tested := tested (test_multiple_configs ctst corig us) @ [length us]\<rparr>)"
    using h by auto
  finally show "test_multiple_configs ctst corig (us @ v # ws) =
      config_loop ctst (Suc (length us)) ws
        ((test_multiple_configs ctst corig us)
           \<lparr>tested := tested (test_multiple_configs ctst corig us) @ [length us]\<rparr>)" .
qed

text \<open>
  Three candidates of which the second fails (an exception on the agent-logic track, the
  failure value on the configuration track): all three are tested and the third is
  returned as the winner.
\<close>

theorem non_blocking_failure_witness:
  "tested (fst (test_multiple_agents
      (\<lambda>i code dir. (if i = 1 then Raised
         else Returned \<lparr>avg_return = (if i = 0 then 1.05 else 2.0), success_rate = 1,
                         test_name = ''Candidate''\<rparr>, dir))
      \<lparr>avg_return = 1.0, success_rate = 1, test_name = ''Original''\<rparr>
      [''agent one'', ''agent two'', ''agent three''] {})) = [0, 1, 2] \<and>
   best_index (fst (test_multiple_agents
      (\<lambda>i code dir. (if i = 1 then Raised
         else Returned \<lparr>avg_return = (if i = 0 then 1.05 else 2.0), success_rate = 1,
                         test_name = ''Candidate''\<rparr>, dir))
      \<lparr>avg_return = 1.0, success_rate = 1, test_name = ''Original''\<rparr>
      [''agent one'', ''agent two'', ''agent three''] {})) = 2 \<and>
   tested (test_multiple_configs
      (\<lambda>i v. if i = 1 then Returned (failure_metrics ''Variant 2'')
         else Returned \<lparr>avg_return = v, success_rate = 1, test_name = ''Variant''\<rparr>)
      \<lparr>avg_return = 1.0, success_rate = 1, test_name = ''Original''\<rparr>
      [1.02, 7, 2 :: real]) = [0, 1, 2] \<and>
   best_index (test_multiple_configs
      (\<lambda>i v. if i = 1 then Returned (failure_metrics ''Variant 2'')
         else Returned \<lparr>avg_return = v, success_rate = 1, test_name = ''Variant''\<rparr>)
      \<lparr>avg_return = 1.0, success_rate = 1, test_name = ''Original''\<rparr>
      [1.02, 7, 2 :: real]) = 2"
  using non_blocking_failure [of
      "\<lambda>i code dir. (if i = 1 then Raised
         else Returned \<lparr>avg_return = (if i = 0 then 1.05 else 2.0), success_rate = 1,
                         test_name = ''Candidate''\<rparr>, dir)"
      "\<lparr>avg_return = 1.0, success_rate = 1, test_name = ''Original''\<rparr>"
      "[''agent one'', ''agent two'', ''agent three'']" "{}"
      "[''agent one'']"
      "\<lparr>best_metrics = \<lparr>avg_return = 1.0, success_rate = 1, test_name = ''Original''\<rparr>,
         best_index = - 1, tested = [0]\<rparr>"
      "{candidate_file 0}" "''agent two''" "{candidate_file 1, candidate_file 0}"
      "[''agent three'']"
      "\<lparr>avg_return = 1.0, success_rate = 1, test_name = ''Original''\<rparr>"
      "\<lambda>i v. if i = 1 then Returned (failure_metrics ''Variant 2'')
         else Returned \<lparr>avg_return = v, success_rate = 1, test_name = ''Variant''\<rparr>"
      "[1.02, 7, 2 :: real]" "[1.02 :: real]" "7" "[2 :: real]"]
  by (simp add: test_multiple_agents_round baseline_round_def failure_metrics_def
      test_multiple_configs_def)

subsection \<open>Cleanup\<close>






subsection \<open>The executor\<close>






subsection \<open>Parameter bounds\<close>










subsection \<open>Variant generation\<close>










subsection \<open>Promotion gate and rollback\<close>











end
